theory Spec2Isabelle
  imports Main "HOL-Library.Sublist"
begin

section \<open>JavaScript values\<close>

text \<open>
  The values that cross the boundary to the blockchain SDK are JSON documents, plus
  \<open>undefined\<close> (an absent property, an absent argument, a view call without a result).
  Token amounts, deposits and gas budgets are decimal strings or \<open>BN\<close> objects in the
  source; the model keeps the integer each one denotes (\<open>BN\<close> is arbitrary precision,
  so \<open>int\<close> is exact), and writes it \<open>JNum\<close> inside a JSON argument object.
\<close>

datatype json =
    JUndefined
  | JNull
  | JBool bool
  | JNum int
  | JStr string
  | JArr "json list"
  | JObj "(string \<times> json) list"

text \<open>ECMAScript \<open>ToBoolean\<close>, as \<open>if (v)\<close> and \<open>!v\<close> apply it.\<close>

fun truthy :: "json \<Rightarrow> bool" where
  "truthy JUndefined = False"
| "truthy JNull = False"
| "truthy (JBool b) = b"
| "truthy (JNum n) = (n \<noteq> 0)"
| "truthy (JStr s) = (s \<noteq> [])"
| "truthy (JArr _) = True"
| "truthy (JObj _) = True"

text \<open>
  \<open>v?.k\<close>: \<open>undefined\<close> on \<open>null\<close> and \<open>undefined\<close>, the property's value on an object
  that has it, \<open>undefined\<close> otherwise. The program reads the properties \<open>total\<close> and
  \<open>code_hash\<close> only, which no primitive and no array has.
\<close>

fun opt_prop :: "json \<Rightarrow> string \<Rightarrow> json" where
  "opt_prop (JObj kvs) k = (case map_of kvs k of None \<Rightarrow> JUndefined | Some v \<Rightarrow> v)"
| "opt_prop _ k = JUndefined"

text \<open>An optional string argument: \<open>None\<close> is \<open>undefined\<close>; the empty string is falsy.\<close>

fun truthy_str :: "string option \<Rightarrow> bool" where
  "truthy_str None = False"
| "truthy_str (Some s) = (s \<noteq> [])"

text \<open>\<open>String.prototype.includes\<close>: the needle occurs as a contiguous run.\<close>

fun str_includes :: "string \<Rightarrow> string \<Rightarrow> bool" where
  "str_includes [] needle = (needle = [])"
| "str_includes (c # cs) needle = (prefix needle (c # cs) \<or> str_includes cs needle)"

text \<open>
  A rejected promise or a thrown exception carries an \<open>Error\<close> object with a message;
  \<open>WalletError\<close> (utils/walletError) adds a type tag.
\<close>

datatype error =
    Error (message: string)
  | WalletError (message: string) (err_type: string)

section \<open>Configuration and the external account layer\<close>

text \<open>
  The constants imported from \<open>../config\<close>. Their values are not part of the service
  layer, so every function takes the configuration as a parameter.
\<close>

record config =
  NEAR_TOKEN_ID :: string
  TOKEN_TRANSFER_DEPOSIT :: int
  FT_TRANSFER_GAS :: int
  FT_STORAGE_DEPOSIT_GAS :: int
  FT_MINIMUM_STORAGE_BALANCE :: int
  FT_MINIMUM_STORAGE_BALANCE_LARGE :: int
  FT_REGISTRATION_DEPOSIT :: int
  FT_REGISTRATION_DEPOSIT_GAS :: int
  SEND_NEAR_GAS :: int
  MULTISIG_CONTRACT_HASHES :: "string list"

text \<open>\<open>functionCall(methodName, args, gas, deposit)\<close> of near-api-js builds an action.\<close>

record action =
  methodName :: string
  args :: json
  gas :: int
  deposit :: "int option"

definition functionCall :: "string \<Rightarrow> json \<Rightarrow> int \<Rightarrow> int option \<Rightarrow> action" where
  "functionCall m a g d = \<lparr>methodName = m, args = a, gas = g, deposit = d\<rparr>"

text \<open>The argument \<open>{ receiverId, actions }\<close> of \<open>signAndSendTransaction\<close>.\<close>

datatype tx = Tx (tx_receiverId: string) (tx_actions: "action list")

text \<open>
  What an account has been asked to sign and send, oldest first. An account object is
  named by its account id.
\<close>

datatype submitted =
    SentTransaction string tx
  | SentMoney string string int

type_synonym log = "submitted list"

text \<open>
  The world outside this layer: the wallet, the chain and the gas price oracle. Its
  answers may depend on everything submitted so far.
\<close>

record world =
  getAccount :: "log \<Rightarrow> string \<Rightarrow> error + string"
  viewFunction :: "string \<Rightarrow> log \<Rightarrow> string \<Rightarrow> string \<Rightarrow> json \<Rightarrow> error + json"
  signAndSendTransaction :: "string \<Rightarrow> log \<Rightarrow> tx \<Rightarrow> error + json"
  sendMoney :: "string \<Rightarrow> log \<Rightarrow> string \<Rightarrow> int \<Rightarrow> error + json"
  getTotalGasFee :: "int \<Rightarrow> error + int"

text \<open>The static \<open>viewFunctionAccount = wallet.getAccountBasic('dontcare')\<close>.\<close>

definition viewFunctionAccount :: string where
  "viewFunctionAccount = ''dontcare''"

section \<open>FungibleTokens: registration and storage queries\<close>

definition checkRegistration :: "world \<Rightarrow> log \<Rightarrow> string \<Rightarrow> string \<Rightarrow> json" where
  "checkRegistration w lg contractName accountId =
     (case viewFunction w viewFunctionAccount lg contractName ''check_registration''
             (JObj [(''account_id'', JStr accountId)]) of
        Inl e \<Rightarrow> JNull
      | Inr v \<Rightarrow> v)"

definition getStorageBalance :: "world \<Rightarrow> log \<Rightarrow> string \<Rightarrow> string \<Rightarrow> error + json" where
  "getStorageBalance w lg contractName accountId =
     viewFunction w viewFunctionAccount lg contractName ''storage_balance_of''
       (JObj [(''account_id'', JStr accountId)])"

definition isAccountUnregistered :: "world \<Rightarrow> log \<Rightarrow> string \<Rightarrow> string \<Rightarrow> bool" where
  "isAccountUnregistered w lg contractName accountId =
     (checkRegistration w lg contractName accountId = JBool False)"

definition isStorageDepositRequired :: "world \<Rightarrow> log \<Rightarrow> string \<Rightarrow> string \<Rightarrow> bool" where
  "isStorageDepositRequired w lg contractName accountId =
     (case getStorageBalance w lg contractName accountId of
        Inl e \<Rightarrow> False
      | Inr storageBalance \<Rightarrow> opt_prop storageBalance ''total'' = JUndefined)"

text \<open>
  The words of the specification for a storage-balance status: it has a \<open>total\<close> field
  when it is an object that carries a defined value under that key.
\<close>

fun has_total :: "json \<Rightarrow> bool" where
  "has_total (JObj kvs) =
     (case map_of kvs ''total'' of None \<Rightarrow> False | Some v \<Rightarrow> v \<noteq> JUndefined)"
| "has_total _ = False"

section \<open>FungibleTokens: fee estimation\<close>

text \<open>
  \<open>getTotalGasFee\<close> (utils/gasPrice) converts a gas budget into a cost in the native
  currency; it is an asynchronous lookup that may fail, and its failure propagates.
  The result is the integer that the returned decimal string or \<open>BN\<close> denotes.
\<close>

definition getEstimatedTotalFees ::
  "config \<Rightarrow> world \<Rightarrow> log \<Rightarrow> string option \<Rightarrow> string option \<Rightarrow> error + int" where
  "getEstimatedTotalFees cfg w lg accountId contractName =
     (let unconditional =
            getTotalGasFee w
              (if truthy_str contractName then FT_TRANSFER_GAS cfg else SEND_NEAR_GAS cfg)
      in case (contractName, accountId) of
           (Some c, Some a) \<Rightarrow>
             if c \<noteq> [] \<and> a \<noteq> [] then
               let isRegistrationRequired = isAccountUnregistered w lg c a;
                   storageDepositRequired = isStorageDepositRequired w lg c a;
                   transferGasFee = FT_TRANSFER_GAS cfg
               in if isRegistrationRequired then
                    (case getTotalGasFee w (transferGasFee + FT_REGISTRATION_DEPOSIT_GAS cfg) of
                       Inl e \<Rightarrow> Inl e
                     | Inr gasFeesWithStorage \<Rightarrow>
                         Inr (gasFeesWithStorage + FT_REGISTRATION_DEPOSIT cfg))
                  else if storageDepositRequired then
                    (case getTotalGasFee w (transferGasFee + FT_STORAGE_DEPOSIT_GAS cfg) of
                       Inl e \<Rightarrow> Inl e
                     | Inr gasFeesWithStorage \<Rightarrow>
                         Inr (gasFeesWithStorage + FT_MINIMUM_STORAGE_BALANCE cfg))
                  else unconditional
             else unconditional
         | _ \<Rightarrow> unconditional)"

section \<open>FungibleTokens: transfer\<close>

text \<open>Submitting a transaction records it, whether the account layer accepts it or not.\<close>

definition signAndSend :: "world \<Rightarrow> string \<Rightarrow> log \<Rightarrow> tx \<Rightarrow> (error + json) \<times> log" where
  "signAndSend w account lg t =
     (signAndSendTransaction w account lg t, lg @ [SentTransaction account t])"

text \<open>The transaction that \<open>transferStorageDeposit\<close> hands to the account.\<close>

abbreviation storage_deposit_tx :: "config \<Rightarrow> string \<Rightarrow> string \<Rightarrow> int \<Rightarrow> tx" where
  "storage_deposit_tx cfg contractName receiverId storageDepositAmount \<equiv>
     Tx contractName
       [functionCall ''storage_deposit''
          (JObj [(''account_id'', JStr receiverId), (''registration_only'', JBool True)])
          (FT_STORAGE_DEPOSIT_GAS cfg)
          (Some storageDepositAmount)]"

definition transferStorageDeposit ::
  "config \<Rightarrow> world \<Rightarrow> log \<Rightarrow> string \<Rightarrow> string \<Rightarrow> string \<Rightarrow> int \<Rightarrow> (error + json) \<times> log" where
  "transferStorageDeposit cfg w lg account contractName receiverId storageDepositAmount =
     signAndSend w account lg
       (storage_deposit_tx cfg contractName receiverId storageDepositAmount)"

text \<open>The test of the \<open>catch\<close> block, on the outcome of the first storage deposit.\<close>

definition rejected_as_too_small :: "error + json \<Rightarrow> bool" where
  "rejected_as_too_small outcome =
     (case outcome of
        Inl e \<Rightarrow> str_includes (message e) ''attached deposit is less than''
      | Inr v \<Rightarrow> False)"

text \<open>
  The \<open>try\<close>/\<open>catch\<close> around the first storage deposit of \<open>transfer\<close>: the result is the
  error that leaves the block, if any, and the log.
\<close>

definition transfer_storage_step ::
  "config \<Rightarrow> world \<Rightarrow> log \<Rightarrow> string \<Rightarrow> string \<Rightarrow> string \<Rightarrow> error option \<times> log" where
  "transfer_storage_step cfg w lg account contractName receiverId =
     (case transferStorageDeposit cfg w lg account contractName receiverId
             (FT_MINIMUM_STORAGE_BALANCE cfg) of
        (Inr r, lg1) \<Rightarrow> (None, lg1)
      | (Inl e, lg1) \<Rightarrow>
          if str_includes (message e) ''attached deposit is less than'' then
            (case transferStorageDeposit cfg w lg1 account contractName receiverId
                    (FT_MINIMUM_STORAGE_BALANCE_LARGE cfg) of
               (Inr r, lg2) \<Rightarrow> (None, lg2)
             | (Inl e2, lg2) \<Rightarrow> (Some e2, lg2))
          else (None, lg1))"

text \<open>The \<open>actions\<close> array literal of the transfer transaction.\<close>

definition transfer_actions ::
  "config \<Rightarrow> bool \<Rightarrow> int \<Rightarrow> string \<Rightarrow> string option \<Rightarrow> action list" where
  "transfer_actions cfg isRegistrationRequired amount receiverId memo =
     (if isRegistrationRequired then
        [functionCall ''register_account'' (JObj [(''account_id'', JStr receiverId)])
           (FT_REGISTRATION_DEPOSIT_GAS cfg) None]
      else [])
     @ [functionCall ''ft_transfer''
          (JObj [(''amount'', JNum amount),
                 (''memo'', (case memo of None \<Rightarrow> JUndefined | Some m \<Rightarrow> JStr m)),
                 (''receiver_id'', JStr receiverId)])
          (FT_TRANSFER_GAS cfg)
          (Some (TOKEN_TRANSFER_DEPOSIT cfg))]"

definition transfer ::
  "config \<Rightarrow> world \<Rightarrow> log \<Rightarrow> string \<Rightarrow> string option \<Rightarrow> int \<Rightarrow> string \<Rightarrow> string option
     \<Rightarrow> (error + json) \<times> log" where
  "transfer cfg w lg accountId contractName amount receiverId memo =
     (case getAccount w lg accountId of
        Inl e \<Rightarrow> (Inl e, lg)
      | Inr account \<Rightarrow>
          (case contractName of
             None \<Rightarrow>
               (sendMoney w account lg receiverId amount,
                lg @ [SentMoney account receiverId amount])
           | Some c \<Rightarrow>
               if c = [] then
                 (sendMoney w account lg receiverId amount,
                  lg @ [SentMoney account receiverId amount])
               else
                 let isStorageTransferRequired = isStorageDepositRequired w lg c receiverId;
                     step = (if isStorageTransferRequired
                             then transfer_storage_step cfg w lg account c receiverId
                             else (None, lg))
                 in (case step of
                       (Some e, lg1) \<Rightarrow> (Inl e, lg1)
                     | (None, lg1) \<Rightarrow>
                         let isRegistrationRequired = isAccountUnregistered w lg1 c receiverId
                         in signAndSend w account lg1
                              (Tx c
                                 (transfer_actions cfg isRegistrationRequired amount
                                    receiverId memo)))))"

section \<open>FungibleTokens: wrapping the native token\<close>

text \<open>
  \<open>parseNearAmount('0.00125')\<close> of near-api-js: the native currency has 24 decimals, so
  the amount is \<open>125 * 10^19\<close> of the smallest unit.
\<close>

definition parseNearAmount_0_00125 :: int where
  "parseNearAmount_0_00125 = 1250000000000000000000"

definition wrapNear ::
  "config \<Rightarrow> world \<Rightarrow> log \<Rightarrow> string \<Rightarrow> int \<Rightarrow> bool \<Rightarrow> (error + json) \<times> log" where
  "wrapNear cfg w lg accountId wrapAmount toWNear =
     (case getAccount w lg accountId of
        Inl e \<Rightarrow> (Inl e, lg)
      | Inr account \<Rightarrow>
          let actions =
                [functionCall
                   (if toWNear then ''near_deposit'' else ''near_withdraw'')
                   (if toWNear then JObj [] else JObj [(''amount'', JNum wrapAmount)])
                   (FT_STORAGE_DEPOSIT_GAS cfg)
                   (Some (if toWNear then wrapAmount else TOKEN_TRANSFER_DEPOSIT cfg))]
          in (case viewFunction w account lg (NEAR_TOKEN_ID cfg) ''storage_balance_of''
                     (JObj [(''account_id'', JStr accountId)]) of
                Inl e \<Rightarrow> (Inl e, lg)
              | Inr storage \<Rightarrow>
                  signAndSend w account lg
                    (Tx (NEAR_TOKEN_ID cfg)
                       (if \<not> truthy storage then
                          functionCall ''storage_deposit'' (JObj [])
                            (FT_STORAGE_DEPOSIT_GAS cfg) (Some parseNearAmount_0_00125)
                          # actions
                        else actions))))"

section \<open>TwoFactor\<close>

text \<open>
  An \<open>async\<close> function returns a promise at once; \<open>await\<close> gives what it settles to.
  A promise is an object, and \<open>ToBoolean\<close> of an object is true whatever the promise
  settles to.
\<close>

datatype 'a promise = Promise "error + 'a"

fun await :: "'a promise \<Rightarrow> error + 'a" where
  "await (Promise r) = r"

fun truthy_promise :: "'a promise \<Rightarrow> bool" where
  "truthy_promise (Promise r) = True"

text \<open>
  What a controller has done so far, oldest first: the operations inherited from
  \<open>Account2FA\<close>, the helper-service request and the store refresh. Reads (the account
  state, the Ledger check, fetching a contract binary) are not recorded.
\<close>

datatype tf_call =
    SetRequest json
  | PostSignedJson string json
  | SuperGet2faMethod
  | SuperDeployMultisig "nat list"
  | Disable "nat list" "nat list"
  | RefreshAccount

text \<open>
  The controller: its \<open>has2fa\<close> field and the pending request that \<open>setRequest\<close> keeps
  in local storage.
\<close>

record two_factor =
  has2fa :: bool
  request :: json
  trace :: "tf_call list"

text \<open>The collaborators of a controller: wallet, chain, helper service and store.\<close>

record tf_world =
  account_state :: "error + json"
  isLedgerEnabled :: "error + json"
  postSignedJson :: "string \<Rightarrow> json \<Rightarrow> error + json"
  fetch_bytes :: "string \<Rightarrow> error + nat list"
  super_get2faMethod :: "error + json"
  super_deployMultisig :: "nat list \<Rightarrow> error + json"
  disable :: "nat list \<Rightarrow> nat list \<Rightarrow> error + json"
  refreshAccount :: "error + json"

text \<open>\<open>MULTISIG_CONTRACT_HASHES.includes(v)\<close>: the list holds strings only.\<close>

fun hashes_include :: "string list \<Rightarrow> json \<Rightarrow> bool" where
  "hashes_include hs (JStr h) = (h \<in> set hs)"
| "hashes_include hs _ = False"

definition has2faEnabled :: "config \<Rightarrow> tf_world \<Rightarrow> bool promise" where
  "has2faEnabled cfg w =
     Promise
       (case account_state w of
          Inl e \<Rightarrow> Inl e
        | Inr st \<Rightarrow>
            if \<not> truthy st then Inr False
            else Inr (hashes_include (MULTISIG_CONTRACT_HASHES cfg) (opt_prop st ''code_hash'')))"

definition get2faMethod ::
  "config \<Rightarrow> tf_world \<Rightarrow> two_factor \<Rightarrow> (error + json) \<times> two_factor" where
  "get2faMethod cfg w s =
     (if truthy_promise (has2faEnabled cfg w)
      then (super_get2faMethod w, s\<lparr>trace := trace s @ [SuperGet2faMethod]\<rparr>)
      else (Inr JNull, s))"

definition ledger_error :: error where
  "ledger_error = WalletError ''Ledger Hardware Wallet is enabled'' ''initTwoFactor.ledgerEnabled''"

definition initTwoFactor ::
  "tf_world \<Rightarrow> two_factor \<Rightarrow> string \<Rightarrow> json \<Rightarrow> (error + json) \<times> two_factor" where
  "initTwoFactor w s accountId method =
     (case isLedgerEnabled w of
        Inl e \<Rightarrow> (Inl e, s)
      | Inr ledgerEnabled \<Rightarrow>
          if truthy ledgerEnabled then (Inl ledger_error, s)
          else
            let cleared = JObj [(''requestId'', JNum (- 1))];
                body = JObj [(''accountId'', JStr accountId), (''method'', method)]
            in (postSignedJson w ''/2fa/init'' body,
                s\<lparr>request := cleared,
                  trace := trace s @ [SetRequest cleared, PostSignedJson ''/2fa/init'' body]\<rparr>))"

definition deployMultisig :: "tf_world \<Rightarrow> two_factor \<Rightarrow> (error + json) \<times> two_factor" where
  "deployMultisig w s =
     (case fetch_bytes w ''/multisig.wasm'' of
        Inl e \<Rightarrow> (Inl e, s)
      | Inr contractBytes \<Rightarrow>
          (case super_deployMultisig w contractBytes of
             Inl e \<Rightarrow> (Inl e, s\<lparr>trace := trace s @ [SuperDeployMultisig contractBytes]\<rparr>)
           | Inr r \<Rightarrow>
               (Inr JUndefined,
                s\<lparr>has2fa := True, trace := trace s @ [SuperDeployMultisig contractBytes]\<rparr>)))"

definition wait_15_minutes :: error where
  "wait_15_minutes =
     Error ''You must wait 15 minutes between each attempt to disable 2fa. Please try again in 15 minutes. ''"

definition disableMultisig :: "tf_world \<Rightarrow> two_factor \<Rightarrow> (error + json) \<times> two_factor" where
  "disableMultisig w s =
     (case fetch_bytes w ''/main.wasm'' of
        Inl e \<Rightarrow> (Inl e, s)
      | Inr contractBytes \<Rightarrow>
          (case fetch_bytes w ''/state_cleanup.wasm'' of
             Inl e \<Rightarrow> (Inl e, s)
           | Inr stateCleanupContractBytes \<Rightarrow>
               let s1 = s\<lparr>trace := trace s @ [Disable contractBytes stateCleanupContractBytes]\<rparr>;
                   attempt =
                     (case disable w contractBytes stateCleanupContractBytes of
                        Inr r \<Rightarrow> Inr r
                      | Inl e \<Rightarrow>
                          if str_includes (message e) ''too large to be viewed''
                          then Inl wait_15_minutes
                          else Inr JUndefined)
               in (case attempt of
                     Inl thrown \<Rightarrow> (Inl thrown, s1)
                   | Inr result \<Rightarrow>
                       (case refreshAccount w of
                          Inl e \<Rightarrow> (Inl e, s1\<lparr>trace := trace s1 @ [RefreshAccount]\<rparr>)
                        | Inr u \<Rightarrow>
                            (Inr result,
                             s1\<lparr>has2fa := False, trace := trace s1 @ [RefreshAccount]\<rparr>)))))"

section \<open>Example configuration and worlds\<close>

text \<open>
  Concrete inputs on which the theorems below are exercised: a configuration, and a
  world whose registration answer, storage-balance answer and transaction outcomes are
  given. The gas price is \<open>10^8\<close> per unit of gas.
\<close>

definition example_config :: config where
  "example_config =
     \<lparr>NEAR_TOKEN_ID = ''wrap.near'',
      TOKEN_TRANSFER_DEPOSIT = 1,
      FT_TRANSFER_GAS = 15000000000000,
      FT_STORAGE_DEPOSIT_GAS = 30000000000000,
      FT_MINIMUM_STORAGE_BALANCE = 1250000000000000000000,
      FT_MINIMUM_STORAGE_BALANCE_LARGE = 12500000000000000000000,
      FT_REGISTRATION_DEPOSIT = 100000000000000000000000,
      FT_REGISTRATION_DEPOSIT_GAS = 30000000000000,
      SEND_NEAR_GAS = 450000000000,
      MULTISIG_CONTRACT_HASHES = [''hashA'', ''hashB'']\<rparr>"

definition example_world ::
  "(error + json) \<Rightarrow> (error + json) \<Rightarrow> (log \<Rightarrow> tx \<Rightarrow> error + json) \<Rightarrow> world" where
  "example_world registration storage send =
     \<lparr>getAccount = (\<lambda>lg a. Inr a),
      viewFunction =
        (\<lambda>viewer lg c m a.
           if m = ''check_registration'' then registration
           else if m = ''storage_balance_of'' then storage
           else Inl (Error ''MethodNotFound'')),
      signAndSendTransaction = (\<lambda>account. send),
      sendMoney = (\<lambda>account lg r n. Inr (JStr ''sent'')),
      getTotalGasFee = (\<lambda>g. Inr (g * 100000000))\<rparr>"

text \<open>Transaction outcomes: every submission accepted, or failing as described.\<close>

definition accept_all :: "log \<Rightarrow> tx \<Rightarrow> error + json" where
  "accept_all lg t = Inr (JStr ''ok'')"

definition deposit_too_small :: error where
  "deposit_too_small =
     Error ''The attached deposit is less than the mimimum storage balance''"

definition first_too_small :: "error + json \<Rightarrow> log \<Rightarrow> tx \<Rightarrow> error + json" where
  "first_too_small later lg t = (if lg = [] then Inl deposit_too_small else later)"

definition first_fails :: "error \<Rightarrow> log \<Rightarrow> tx \<Rightarrow> error + json" where
  "first_fails e lg t = (if lg = [] then Inl e else Inr (JStr ''ok''))"

text \<open>
  Collaborators of a controller, given the account state, the answer of the Ledger
  check and the outcome of the inherited \<open>disable\<close>; and a controller with 2FA on and a
  pending request.
\<close>

definition example_tf_world :: "(error + json) \<Rightarrow> (error + json) \<Rightarrow> (error + json) \<Rightarrow> tf_world" where
  "example_tf_world st ledger disabled =
     \<lparr>account_state = st,
      isLedgerEnabled = ledger,
      postSignedJson = (\<lambda>path body. Inr (JObj [(''success'', JBool True)])),
      fetch_bytes = (\<lambda>path. if path = ''/main.wasm'' then Inr [0, 97, 115, 109] else Inr [1, 2]),
      super_get2faMethod =
        Inr (JObj [(''kind'', JStr ''2fa-email''), (''detail'', JStr ''alice@example.com'')]),
      super_deployMultisig = (\<lambda>contractBytes. Inr JNull),
      disable = (\<lambda>contractBytes cleanupBytes. disabled),
      refreshAccount = Inr JNull\<rparr>"

definition example_controller :: two_factor where
  "example_controller =
     \<lparr>has2fa = True,
      request = JObj [(''requestId'', JNum 7), (''accountId'', JStr ''alice.near'')],
      trace = []\<rparr>"

section \<open>Properties of the queries\<close>

lemma str_includes_sublist: "str_includes s needle = sublist needle s"
  by (induction s) (simp_all add: sublist_Cons_right)

lemma opt_prop_total: "(opt_prop v ''total'' = JUndefined) = (\<not> has_total v)"
  by (cases v) (simp_all split: option.splits)

text \<open>Unfolding the example worlds and the queries on them.\<close>

lemmas world_defs = example_world_def example_config_def accept_all_def first_too_small_def
  first_fails_def deposit_too_small_def

lemmas query_defs = isAccountUnregistered_def checkRegistration_def isStorageDepositRequired_def
  getStorageBalance_def viewFunctionAccount_def

section \<open>Registration check (C5)\<close>

lemma isAccountUnregistered_view:
  "isAccountUnregistered w lg c a =
     (viewFunction w viewFunctionAccount lg c ''check_registration''
        (JObj [(''account_id'', JStr a)]) = Inr (JBool False))"
  by (simp add: isAccountUnregistered_def checkRegistration_def split: sum.splits)

text \<open>
  C5. \<open>isAccountUnregistered\<close> is true only when \<open>checkRegistration\<close> returns exactly
  \<open>false\<close>; it is false when \<open>checkRegistration\<close> returns \<open>true\<close> or \<open>null\<close>.
  \<open>checkRegistration\<close> returns \<open>null\<close> when the \<open>check_registration\<close> view call fails,
  and the result of the call otherwise; its \<open>catch\<close> is unconditional, so it never
  throws, and a failed call makes \<open>isAccountUnregistered\<close> false.
\<close>

theorem isAccountUnregistered_only_on_false:
  "(isAccountUnregistered w lg c a \<longleftrightarrow> checkRegistration w lg c a = JBool False)
   \<and> (\<forall>e. viewFunction w viewFunctionAccount lg c ''check_registration''
              (JObj [(''account_id'', JStr a)]) = Inl e
         \<longrightarrow> checkRegistration w lg c a = JNull \<and> \<not> isAccountUnregistered w lg c a)
   \<and> (\<forall>v. viewFunction w viewFunctionAccount lg c ''check_registration''
              (JObj [(''account_id'', JStr a)]) = Inr v
         \<longrightarrow> checkRegistration w lg c a = v
             \<and> (isAccountUnregistered w lg c a \<longleftrightarrow> v = JBool False))
   \<and> (checkRegistration w lg c a = JBool True \<longrightarrow> \<not> isAccountUnregistered w lg c a)
   \<and> (checkRegistration w lg c a = JNull \<longrightarrow> \<not> isAccountUnregistered w lg c a)"
  by (simp add: isAccountUnregistered_def checkRegistration_def)

theorem isAccountUnregistered_only_on_false_witness:
  "checkRegistration (example_world (Inl (Error ''timeout'')) (Inr JNull) accept_all) []
       ''token.near'' ''bob.near'' = JNull
   \<and> \<not> isAccountUnregistered (example_world (Inl (Error ''timeout'')) (Inr JNull) accept_all) []
       ''token.near'' ''bob.near''
   \<and> isAccountUnregistered (example_world (Inr (JBool False)) (Inr JNull) accept_all) []
       ''token.near'' ''bob.near''
   \<and> \<not> isAccountUnregistered (example_world (Inr (JBool True)) (Inr JNull) accept_all) []
       ''token.near'' ''bob.near''
   \<and> \<not> isAccountUnregistered (example_world (Inr JNull) (Inr JNull) accept_all) []
       ''token.near'' ''bob.near''"
  using isAccountUnregistered_only_on_false
          [of "example_world (Inl (Error ''timeout'')) (Inr JNull) accept_all" "[]"
              "''token.near''" "''bob.near''"]
        isAccountUnregistered_only_on_false
          [of "example_world (Inr (JBool False)) (Inr JNull) accept_all" "[]"
              "''token.near''" "''bob.near''"]
        isAccountUnregistered_only_on_false
          [of "example_world (Inr (JBool True)) (Inr JNull) accept_all" "[]"
              "''token.near''" "''bob.near''"]
        isAccountUnregistered_only_on_false
          [of "example_world (Inr JNull) (Inr JNull) accept_all" "[]"
              "''token.near''" "''bob.near''"]
  by (simp add: example_world_def viewFunctionAccount_def)

section \<open>Storage-deposit check (C4)\<close>

text \<open>
  C4. \<open>isStorageDepositRequired\<close> returns false whenever the \<open>storage_balance_of\<close>
  query fails, and returns true exactly when the query succeeds and the status it
  returns has no \<open>total\<close> field (a \<open>null\<close> status has none, and a field that holds
  \<open>undefined\<close> counts as absent).
\<close>

theorem isStorageDepositRequired_fail_open:
  "(\<forall>e. getStorageBalance w lg c a = Inl e \<longrightarrow> \<not> isStorageDepositRequired w lg c a)
   \<and> (isStorageDepositRequired w lg c a \<longleftrightarrow>
        (\<exists>status. getStorageBalance w lg c a = Inr status \<and> \<not> has_total status))"
  by (auto simp: isStorageDepositRequired_def opt_prop_total split: sum.splits)

theorem isStorageDepositRequired_fail_open_witness:
  "\<not> isStorageDepositRequired (example_world (Inr JNull) (Inl (Error ''timeout'')) accept_all) []
       ''token.near'' ''bob.near''
   \<and> isStorageDepositRequired (example_world (Inr JNull) (Inr JNull) accept_all) []
       ''token.near'' ''bob.near''
   \<and> isStorageDepositRequired
       (example_world (Inr JNull) (Inr (JObj [(''available'', JNum 0)])) accept_all) []
       ''token.near'' ''bob.near''
   \<and> \<not> isStorageDepositRequired
       (example_world (Inr JNull) (Inr (JObj [(''total'', JNum 125), (''available'', JNum 0)]))
          accept_all) []
       ''token.near'' ''bob.near''"
  using isStorageDepositRequired_fail_open
          [of "example_world (Inr JNull) (Inl (Error ''timeout'')) accept_all" "[]"
              "''token.near''" "''bob.near''"]
        isStorageDepositRequired_fail_open
          [of "example_world (Inr JNull) (Inr JNull) accept_all" "[]"
              "''token.near''" "''bob.near''"]
        isStorageDepositRequired_fail_open
          [of "example_world (Inr JNull) (Inr (JObj [(''available'', JNum 0)])) accept_all" "[]"
              "''token.near''" "''bob.near''"]
        isStorageDepositRequired_fail_open
          [of "example_world (Inr JNull)
                 (Inr (JObj [(''total'', JNum 125), (''available'', JNum 0)])) accept_all" "[]"
              "''token.near''" "''bob.near''"]
  by (simp add: example_world_def viewFunctionAccount_def getStorageBalance_def)

section \<open>Fee estimation (C6)\<close>

lemma fees_registration:
  assumes "c \<noteq> []" "a \<noteq> []" "isAccountUnregistered w lg c a"
  shows "getEstimatedTotalFees cfg w lg (Some a) (Some c) =
           (case getTotalGasFee w (FT_TRANSFER_GAS cfg + FT_REGISTRATION_DEPOSIT_GAS cfg) of
              Inl e \<Rightarrow> Inl e
            | Inr g \<Rightarrow> Inr (g + FT_REGISTRATION_DEPOSIT cfg))"
  using assms by (simp add: getEstimatedTotalFees_def)

lemma fees_storage:
  assumes "c \<noteq> []" "a \<noteq> []" "\<not> isAccountUnregistered w lg c a"
    "isStorageDepositRequired w lg c a"
  shows "getEstimatedTotalFees cfg w lg (Some a) (Some c) =
           (case getTotalGasFee w (FT_TRANSFER_GAS cfg + FT_STORAGE_DEPOSIT_GAS cfg) of
              Inl e \<Rightarrow> Inl e
            | Inr g \<Rightarrow> Inr (g + FT_MINIMUM_STORAGE_BALANCE cfg))"
  using assms by (simp add: getEstimatedTotalFees_def)

lemma fees_neither:
  assumes "c \<noteq> []" "\<not> isAccountUnregistered w lg c a"
    "\<not> isStorageDepositRequired w lg c a"
  shows "getEstimatedTotalFees cfg w lg (Some a) (Some c) = getTotalGasFee w (FT_TRANSFER_GAS cfg)"
  using assms by (simp add: getEstimatedTotalFees_def Let_def)

text \<open>
  C6. With the same gas price oracle, the estimated fee when registration is required
  is strictly greater than the fee when only a storage deposit is required, which is
  strictly greater than the fee when neither is required. The configuration constants
  and the oracle are outside the service layer; the order holds for every oracle that
  prices the three gas budgets and is monotone, and for every configuration whose
  storage-deposit gas is non-negative and at most the registration gas and whose
  minimum storage balance is positive and below the registration deposit.
\<close>

theorem getEstimatedTotalFees_strictly_ordered:
  assumes names: "c \<noteq> []" "a \<noteq> []"
    and same_oracle: "getTotalGasFee wr = gasFee" "getTotalGasFee ws = gasFee"
      "getTotalGasFee wn = gasFee"
    and priced: "gasFee (FT_TRANSFER_GAS cfg + FT_REGISTRATION_DEPOSIT_GAS cfg) = Inr pr"
      "gasFee (FT_TRANSFER_GAS cfg + FT_STORAGE_DEPOSIT_GAS cfg) = Inr ps"
      "gasFee (FT_TRANSFER_GAS cfg) = Inr pn"
    and monotone: "\<forall>g1 g2 f1 f2. g1 \<le> g2 \<longrightarrow> gasFee g1 = Inr f1 \<longrightarrow> gasFee g2 = Inr f2 \<longrightarrow> f1 \<le> f2"
    and gas: "0 \<le> FT_STORAGE_DEPOSIT_GAS cfg"
      "FT_STORAGE_DEPOSIT_GAS cfg \<le> FT_REGISTRATION_DEPOSIT_GAS cfg"
    and deposits: "0 < FT_MINIMUM_STORAGE_BALANCE cfg"
      "FT_MINIMUM_STORAGE_BALANCE cfg < FT_REGISTRATION_DEPOSIT cfg"
    and registration: "isAccountUnregistered wr lr c a"
    and storage_only: "\<not> isAccountUnregistered ws ls c a" "isStorageDepositRequired ws ls c a"
    and neither: "\<not> isAccountUnregistered wn ln c a" "\<not> isStorageDepositRequired wn ln c a"
  shows "\<exists>fr fs fn.
           getEstimatedTotalFees cfg wr lr (Some a) (Some c) = Inr fr
         \<and> getEstimatedTotalFees cfg ws ls (Some a) (Some c) = Inr fs
         \<and> getEstimatedTotalFees cfg wn ln (Some a) (Some c) = Inr fn
         \<and> fs < fr \<and> fn < fs"
proof -
  have r: "getEstimatedTotalFees cfg wr lr (Some a) (Some c) = Inr (pr + FT_REGISTRATION_DEPOSIT cfg)"
    using fees_registration [OF names registration, of cfg] same_oracle priced by simp
  have s: "getEstimatedTotalFees cfg ws ls (Some a) (Some c) = Inr (ps + FT_MINIMUM_STORAGE_BALANCE cfg)"
    using fees_storage [OF names storage_only, of cfg] same_oracle priced by simp
  have n: "getEstimatedTotalFees cfg wn ln (Some a) (Some c) = Inr pn"
    using fees_neither [OF names(1) neither, of cfg] same_oracle priced by simp
  have "ps \<le> pr"
    using monotone priced(1,2) gas(2)
    by (meson add_left_mono)
  moreover have "pn \<le> ps"
    using monotone priced(2,3) gas(1)
    by (meson add_increasing2 order_refl)
  ultimately show ?thesis
    using r s n deposits by auto
qed

theorem getEstimatedTotalFees_strictly_ordered_witness:
  "getEstimatedTotalFees example_config
       (example_world (Inr (JBool False)) (Inr JNull) accept_all) []
       (Some ''bob.near'') (Some ''token.near'') = Inr 104500000000000000000000
   \<and> getEstimatedTotalFees example_config
       (example_world (Inr (JBool True)) (Inr JNull) accept_all) []
       (Some ''bob.near'') (Some ''token.near'') = Inr 5750000000000000000000
   \<and> getEstimatedTotalFees example_config
       (example_world (Inr (JBool True)) (Inr (JObj [(''total'', JNum 125)])) accept_all) []
       (Some ''bob.near'') (Some ''token.near'') = Inr 1500000000000000000000
   \<and> (\<exists>fr fs fn.
         getEstimatedTotalFees example_config
           (example_world (Inr (JBool False)) (Inr JNull) accept_all) []
           (Some ''bob.near'') (Some ''token.near'') = Inr fr
       \<and> getEstimatedTotalFees example_config
           (example_world (Inr (JBool True)) (Inr JNull) accept_all) []
           (Some ''bob.near'') (Some ''token.near'') = Inr fs
       \<and> getEstimatedTotalFees example_config
           (example_world (Inr (JBool True)) (Inr (JObj [(''total'', JNum 125)])) accept_all) []
           (Some ''bob.near'') (Some ''token.near'') = Inr fn
       \<and> fs < fr \<and> fn < fs)"
proof -
  let ?gasFee = "\<lambda>g::int. (Inr (g * 100000000) :: error + int)"
  let ?wr = "example_world (Inr (JBool False)) (Inr JNull) accept_all"
  let ?ws = "example_world (Inr (JBool True)) (Inr JNull) accept_all"
  let ?wn = "example_world (Inr (JBool True)) (Inr (JObj [(''total'', JNum 125)])) accept_all"
  have ordered: "\<exists>fr fs fn.
         getEstimatedTotalFees example_config ?wr [] (Some ''bob.near'') (Some ''token.near'') = Inr fr
       \<and> getEstimatedTotalFees example_config ?ws [] (Some ''bob.near'') (Some ''token.near'') = Inr fs
       \<and> getEstimatedTotalFees example_config ?wn [] (Some ''bob.near'') (Some ''token.near'') = Inr fn
       \<and> fs < fr \<and> fn < fs"
  proof (rule getEstimatedTotalFees_strictly_ordered [where gasFee = ?gasFee])
    show "\<forall>g1 g2 f1 f2. g1 \<le> g2 \<longrightarrow> ?gasFee g1 = Inr f1 \<longrightarrow> ?gasFee g2 = Inr f2 \<longrightarrow> f1 \<le> f2"
      by auto
  qed (simp_all add: example_world_def example_config_def isAccountUnregistered_def
         checkRegistration_def isStorageDepositRequired_def getStorageBalance_def)
  have computed:
    "getEstimatedTotalFees example_config ?wr [] (Some ''bob.near'') (Some ''token.near'')
       = Inr 104500000000000000000000"
    "getEstimatedTotalFees example_config ?ws [] (Some ''bob.near'') (Some ''token.near'')
       = Inr 5750000000000000000000"
    "getEstimatedTotalFees example_config ?wn [] (Some ''bob.near'') (Some ''token.near'')
       = Inr 1500000000000000000000"
    by (simp_all add: getEstimatedTotalFees_def example_world_def example_config_def
          isAccountUnregistered_def checkRegistration_def isStorageDepositRequired_def
          getStorageBalance_def)
  from computed ordered show ?thesis by blast
qed

section \<open>Token transfer (C1)\<close>

lemma transfer_token:
  assumes "getAccount w lg accountId = Inr account" "c \<noteq> []"
    "isStorageDepositRequired w lg c receiverId"
  shows "transfer cfg w lg accountId (Some c) amount receiverId memo =
           (case transfer_storage_step cfg w lg account c receiverId of
              (Some e, lg1) \<Rightarrow> (Inl e, lg1)
            | (None, lg1) \<Rightarrow>
                signAndSend w account lg1
                  (Tx c (transfer_actions cfg (isAccountUnregistered w lg1 c receiverId)
                           amount receiverId memo)))"
  using assms by (simp add: transfer_def Let_def split: prod.splits option.splits)

lemma storage_step_cases:
  "transfer_storage_step cfg w lg account c receiverId =
     (let first = signAndSendTransaction w account lg
                    (storage_deposit_tx cfg c receiverId (FT_MINIMUM_STORAGE_BALANCE cfg));
          lg1 = lg @ [SentTransaction account
                        (storage_deposit_tx cfg c receiverId (FT_MINIMUM_STORAGE_BALANCE cfg))]
      in if rejected_as_too_small first then
           (case signAndSendTransaction w account lg1
                   (storage_deposit_tx cfg c receiverId (FT_MINIMUM_STORAGE_BALANCE_LARGE cfg)) of
              Inl e2 \<Rightarrow> Some e2
            | Inr r \<Rightarrow> None,
            lg1 @ [SentTransaction account
                     (storage_deposit_tx cfg c receiverId (FT_MINIMUM_STORAGE_BALANCE_LARGE cfg))])
         else (None, lg1))"
  by (simp add: transfer_storage_step_def transferStorageDeposit_def signAndSend_def
        rejected_as_too_small_def Let_def split: sum.splits)

text \<open>
  C1, as stated, promises the transfer transaction whenever the receiver needs both a
  storage deposit and a registration. Below the receiver needs both, before and after
  the deposits; the first deposit is rejected as too small and the retry fails, so the
  caller receives the retry's error and the two storage deposits are all that was
  submitted: no transfer transaction, and two \<open>storage_deposit\<close> transactions.
\<close>

theorem transfer_both_required_retry_fails:
  "isStorageDepositRequired
     (example_world (Inr (JBool False)) (Inr JNull)
        (first_too_small (Inl (Error ''Exceeded the prepaid gas'')))) []
     ''token.near'' ''carol.near''
   \<and> isAccountUnregistered
     (example_world (Inr (JBool False)) (Inr JNull)
        (first_too_small (Inl (Error ''Exceeded the prepaid gas'')))) []
     ''token.near'' ''carol.near''
   \<and> isAccountUnregistered
     (example_world (Inr (JBool False)) (Inr JNull)
        (first_too_small (Inl (Error ''Exceeded the prepaid gas''))))
     [SentTransaction ''alice.near''
        (storage_deposit_tx example_config ''token.near'' ''carol.near'' 1250000000000000000000),
      SentTransaction ''alice.near''
        (storage_deposit_tx example_config ''token.near'' ''carol.near'' 12500000000000000000000)]
     ''token.near'' ''carol.near''
   \<and> transfer example_config
     (example_world (Inr (JBool False)) (Inr JNull)
        (first_too_small (Inl (Error ''Exceeded the prepaid gas'')))) []
     ''alice.near'' (Some ''token.near'') 10 ''carol.near'' (Some ''thanks'') =
   (Inl (Error ''Exceeded the prepaid gas''),
    [SentTransaction ''alice.near''
       (storage_deposit_tx example_config ''token.near'' ''carol.near'' 1250000000000000000000),
     SentTransaction ''alice.near''
       (storage_deposit_tx example_config ''token.near'' ''carol.near'' 12500000000000000000000)])"
  by (simp add: transfer_def transfer_storage_step_def transferStorageDeposit_def signAndSend_def
        world_defs query_defs)

text \<open>
  C1, amended. A token transfer to a receiver that needs both a storage deposit and a
  registration first submits, to the token contract, a separate transaction holding one
  \<open>storage_deposit\<close> action funded with the minimum storage balance. Unless that
  deposit is rejected as too small, the transfer transaction follows at once; its
  actions are exactly \<open>register_account\<close> for the receiver, then \<open>ft_transfer\<close> of the
  amount and memo to the receiver, and its outcome is the outcome of the call. After a
  rejection as too small, one more \<open>storage_deposit\<close> transaction, with the larger
  constant, is submitted first: if it is accepted the same transfer transaction
  follows, and if it fails the caller receives its error and no transfer transaction is
  submitted.
\<close>

theorem transfer_both_required:
  assumes account: "getAccount w lg accountId = Inr account"
    and contract: "c \<noteq> []"
    and storage: "isStorageDepositRequired w lg c receiverId"
    and first: "first = signAndSendTransaction w account lg
                  (storage_deposit_tx cfg c receiverId (FT_MINIMUM_STORAGE_BALANCE cfg))"
    and lg1: "lg1 = lg @ [SentTransaction account
                 (storage_deposit_tx cfg c receiverId (FT_MINIMUM_STORAGE_BALANCE cfg))]"
    and second: "second = signAndSendTransaction w account lg1
                  (storage_deposit_tx cfg c receiverId (FT_MINIMUM_STORAGE_BALANCE_LARGE cfg))"
    and lg2: "lg2 = lg1 @ [SentTransaction account
                 (storage_deposit_tx cfg c receiverId (FT_MINIMUM_STORAGE_BALANCE_LARGE cfg))]"
    and registration:
      "isAccountUnregistered w (if rejected_as_too_small first then lg2 else lg1) c receiverId"
    and transfer_tx: "transfer_tx =
        Tx c
          [functionCall ''register_account'' (JObj [(''account_id'', JStr receiverId)])
             (FT_REGISTRATION_DEPOSIT_GAS cfg) None,
           functionCall ''ft_transfer''
             (JObj [(''amount'', JNum amount),
                    (''memo'', (case memo of None \<Rightarrow> JUndefined | Some m \<Rightarrow> JStr m)),
                    (''receiver_id'', JStr receiverId)])
             (FT_TRANSFER_GAS cfg) (Some (TOKEN_TRANSFER_DEPOSIT cfg))]"
  shows "transfer cfg w lg accountId (Some c) amount receiverId memo =
           (if rejected_as_too_small first then
              (case second of
                 Inl e2 \<Rightarrow> (Inl e2, lg2)
               | Inr ok \<Rightarrow>
                   (signAndSendTransaction w account lg2 transfer_tx,
                    lg2 @ [SentTransaction account transfer_tx]))
            else
              (signAndSendTransaction w account lg1 transfer_tx,
               lg1 @ [SentTransaction account transfer_tx]))"
proof (cases "rejected_as_too_small first")
  case True
  with registration have reg: "isAccountUnregistered w lg2 c receiverId" by simp
  have step: "transfer_storage_step cfg w lg account c receiverId =
                (case second of Inl e2 \<Rightarrow> Some e2 | Inr ok \<Rightarrow> None, lg2)"
    using True unfolding storage_step_cases first lg1 second lg2 by simp
  show ?thesis
  proof (cases second)
    case (Inl e2)
    with True show ?thesis
      by (simp add: transfer_token [OF account contract storage] step)
  next
    case (Inr ok)
    with True reg transfer_tx show ?thesis
      by (simp add: transfer_token [OF account contract storage] step
            signAndSend_def transfer_actions_def)
  qed
next
  case False
  with registration have reg: "isAccountUnregistered w lg1 c receiverId" by simp
  have step: "transfer_storage_step cfg w lg account c receiverId = (None, lg1)"
    using False unfolding storage_step_cases first lg1 by simp
  from False reg transfer_tx show ?thesis
    by (simp add: transfer_token [OF account contract storage] step
          signAndSend_def transfer_actions_def)
qed

theorem transfer_both_required_witness:
  "transfer example_config (example_world (Inr (JBool False)) (Inr JNull) accept_all) []
     ''alice.near'' (Some ''token.near'') 10 ''bob.near'' (Some ''thanks'') =
   (Inr (JStr ''ok''),
    [SentTransaction ''alice.near''
       (Tx ''token.near''
          [functionCall ''storage_deposit''
             (JObj [(''account_id'', JStr ''bob.near''), (''registration_only'', JBool True)])
             30000000000000 (Some 1250000000000000000000)]),
     SentTransaction ''alice.near''
       (Tx ''token.near''
          [functionCall ''register_account'' (JObj [(''account_id'', JStr ''bob.near'')])
             30000000000000 None,
           functionCall ''ft_transfer''
             (JObj [(''amount'', JNum 10), (''memo'', JStr ''thanks''),
                    (''receiver_id'', JStr ''bob.near'')])
             15000000000000 (Some 1)])])
   \<and> transfer example_config
       (example_world (Inr (JBool False)) (Inr JNull) (first_too_small (Inr (JStr ''ok'')))) []
       ''alice.near'' (Some ''token.near'') 10 ''bob.near'' None =
   (Inr (JStr ''ok''),
    [SentTransaction ''alice.near''
       (Tx ''token.near''
          [functionCall ''storage_deposit''
             (JObj [(''account_id'', JStr ''bob.near''), (''registration_only'', JBool True)])
             30000000000000 (Some 1250000000000000000000)]),
     SentTransaction ''alice.near''
       (Tx ''token.near''
          [functionCall ''storage_deposit''
             (JObj [(''account_id'', JStr ''bob.near''), (''registration_only'', JBool True)])
             30000000000000 (Some 12500000000000000000000)]),
     SentTransaction ''alice.near''
       (Tx ''token.near''
          [functionCall ''register_account'' (JObj [(''account_id'', JStr ''bob.near'')])
             30000000000000 None,
           functionCall ''ft_transfer''
             (JObj [(''amount'', JNum 10), (''memo'', JUndefined),
                    (''receiver_id'', JStr ''bob.near'')])
             15000000000000 (Some 1)])])
   \<and> transfer example_config
       (example_world (Inr (JBool False)) (Inr JNull)
          (first_too_small (Inl (Error ''Sender does not have enough balance'')))) []
       ''alice.near'' (Some ''token.near'') 10 ''bob.near'' None =
   (Inl (Error ''Sender does not have enough balance''),
    [SentTransaction ''alice.near''
       (Tx ''token.near''
          [functionCall ''storage_deposit''
             (JObj [(''account_id'', JStr ''bob.near''), (''registration_only'', JBool True)])
             30000000000000 (Some 1250000000000000000000)]),
     SentTransaction ''alice.near''
       (Tx ''token.near''
          [functionCall ''storage_deposit''
             (JObj [(''account_id'', JStr ''bob.near''), (''registration_only'', JBool True)])
             30000000000000 (Some 12500000000000000000000)])])"
  using transfer_both_required
          [where w = "example_world (Inr (JBool False)) (Inr JNull) accept_all"
             and lg = "[]" and cfg = example_config and accountId = "''alice.near''"
             and account = "''alice.near''" and c = "''token.near''"
             and receiverId = "''bob.near''" and amount = 10 and memo = "Some ''thanks''",
           OF _ _ _ refl refl refl refl _ refl]
        transfer_both_required
          [where w = "example_world (Inr (JBool False)) (Inr JNull)
                        (first_too_small (Inr (JStr ''ok'')))"
             and lg = "[]" and cfg = example_config and accountId = "''alice.near''"
             and account = "''alice.near''" and c = "''token.near''"
             and receiverId = "''bob.near''" and amount = 10 and memo = None,
           OF _ _ _ refl refl refl refl _ refl]
        transfer_both_required
          [where w = "example_world (Inr (JBool False)) (Inr JNull)
                        (first_too_small (Inl (Error ''Sender does not have enough balance'')))"
             and lg = "[]" and cfg = example_config and accountId = "''alice.near''"
             and account = "''alice.near''" and c = "''token.near''"
             and receiverId = "''bob.near''" and amount = 10 and memo = None,
           OF _ _ _ refl refl refl refl _ refl]
  by (simp add: world_defs query_defs rejected_as_too_small_def)

section \<open>Failures of the storage deposit (C3)\<close>

text \<open>
  C3, as stated, says that every failure of the storage-deposit step other than the
  first rejection is swallowed and the transfer is still submitted. The retry is part
  of the step and its failure is not caught: below, the first deposit is rejected as
  too small, the retry fails for lack of balance, the caller receives that error and no
  transfer transaction is submitted.
\<close>

theorem transfer_retry_failure_surfaces:
  "transfer example_config
     (example_world (Inr (JBool False)) (Inr JNull)
        (first_too_small (Inl (Error ''Sender does not have enough balance'')))) []
     ''alice.near'' (Some ''token.near'') 10 ''bob.near'' None =
   (Inl (Error ''Sender does not have enough balance''),
    [SentTransaction ''alice.near''
       (storage_deposit_tx example_config ''token.near'' ''bob.near'' 1250000000000000000000),
     SentTransaction ''alice.near''
       (storage_deposit_tx example_config ''token.near'' ''bob.near'' 12500000000000000000000)])"
  by (simp add: transfer_def transfer_storage_step_def transferStorageDeposit_def signAndSend_def
        world_defs query_defs)

text \<open>
  C3, amended. When the first \<open>storage_deposit\<close> submission fails with a message that
  contains "attached deposit is less than", the deposit is submitted once more, with
  the larger constant, and never again; if that retry fails, its error reaches the
  caller and no transfer transaction is submitted, otherwise the transfer is assembled
  and submitted. When the first submission fails with any other message, nothing is
  retried, the error is dropped, and the transfer is assembled and submitted.
\<close>

theorem transfer_storage_deposit_failures:
  assumes account: "getAccount w lg accountId = Inr account"
    and contract: "c \<noteq> []"
    and storage: "isStorageDepositRequired w lg c receiverId"
    and first: "signAndSendTransaction w account lg
                  (storage_deposit_tx cfg c receiverId (FT_MINIMUM_STORAGE_BALANCE cfg)) = Inl e"
    and lg1: "lg1 = lg @ [SentTransaction account
                 (storage_deposit_tx cfg c receiverId (FT_MINIMUM_STORAGE_BALANCE cfg))]"
    and lg2: "lg2 = lg1 @ [SentTransaction account
                 (storage_deposit_tx cfg c receiverId (FT_MINIMUM_STORAGE_BALANCE_LARGE cfg))]"
  shows "transfer cfg w lg accountId (Some c) amount receiverId memo =
           (if str_includes (message e) ''attached deposit is less than'' then
              (case signAndSendTransaction w account lg1
                      (storage_deposit_tx cfg c receiverId (FT_MINIMUM_STORAGE_BALANCE_LARGE cfg)) of
                 Inl e2 \<Rightarrow> (Inl e2, lg2)
               | Inr ok \<Rightarrow>
                   signAndSend w account lg2
                     (Tx c (transfer_actions cfg (isAccountUnregistered w lg2 c receiverId)
                              amount receiverId memo)))
            else
              signAndSend w account lg1
                (Tx c (transfer_actions cfg (isAccountUnregistered w lg1 c receiverId)
                         amount receiverId memo)))"
  using first lg1 lg2
  by (simp add: transfer_token [OF account contract storage] storage_step_cases
        rejected_as_too_small_def split: sum.splits)

theorem transfer_storage_deposit_failures_witness:
  "transfer example_config
     (example_world (Inr (JBool True)) (Inr JNull)
        (first_fails (Error ''Exceeded the prepaid gas''))) []
     ''alice.near'' (Some ''token.near'') 10 ''bob.near'' None =
   (Inr (JStr ''ok''),
    [SentTransaction ''alice.near''
       (storage_deposit_tx example_config ''token.near'' ''bob.near'' 1250000000000000000000),
     SentTransaction ''alice.near''
       (Tx ''token.near''
          [functionCall ''ft_transfer''
             (JObj [(''amount'', JNum 10), (''memo'', JUndefined),
                    (''receiver_id'', JStr ''bob.near'')])
             15000000000000 (Some 1)])])
   \<and> transfer example_config
     (example_world (Inr (JBool True)) (Inr JNull) (first_too_small (Inr (JStr ''ok'')))) []
     ''alice.near'' (Some ''token.near'') 10 ''bob.near'' None =
   (Inr (JStr ''ok''),
    [SentTransaction ''alice.near''
       (storage_deposit_tx example_config ''token.near'' ''bob.near'' 1250000000000000000000),
     SentTransaction ''alice.near''
       (storage_deposit_tx example_config ''token.near'' ''bob.near'' 12500000000000000000000),
     SentTransaction ''alice.near''
       (Tx ''token.near''
          [functionCall ''ft_transfer''
             (JObj [(''amount'', JNum 10), (''memo'', JUndefined),
                    (''receiver_id'', JStr ''bob.near'')])
             15000000000000 (Some 1)])])
   \<and> transfer example_config
     (example_world (Inr (JBool True)) (Inr JNull)
        (first_too_small (Inl (Error ''Sender does not have enough balance'')))) []
     ''alice.near'' (Some ''token.near'') 10 ''bob.near'' None =
   (Inl (Error ''Sender does not have enough balance''),
    [SentTransaction ''alice.near''
       (storage_deposit_tx example_config ''token.near'' ''bob.near'' 1250000000000000000000),
     SentTransaction ''alice.near''
       (storage_deposit_tx example_config ''token.near'' ''bob.near'' 12500000000000000000000)])"
  using transfer_storage_deposit_failures
          [where w = "example_world (Inr (JBool True)) (Inr JNull)
                        (first_fails (Error ''Exceeded the prepaid gas''))"
             and lg = "[]" and cfg = example_config and accountId = "''alice.near''"
             and account = "''alice.near''" and c = "''token.near''"
             and receiverId = "''bob.near''" and amount = 10 and memo = None
             and e = "Error ''Exceeded the prepaid gas''",
           OF _ _ _ _ refl refl]
        transfer_storage_deposit_failures
          [where w = "example_world (Inr (JBool True)) (Inr JNull)
                        (first_too_small (Inr (JStr ''ok'')))"
             and lg = "[]" and cfg = example_config and accountId = "''alice.near''"
             and account = "''alice.near''" and c = "''token.near''"
             and receiverId = "''bob.near''" and amount = 10 and memo = None
             and e = deposit_too_small,
           OF _ _ _ _ refl refl]
        transfer_storage_deposit_failures
          [where w = "example_world (Inr (JBool True)) (Inr JNull)
                        (first_too_small (Inl (Error ''Sender does not have enough balance'')))"
             and lg = "[]" and cfg = example_config and accountId = "''alice.near''"
             and account = "''alice.near''" and c = "''token.near''"
             and receiverId = "''bob.near''" and amount = 10 and memo = None
             and e = deposit_too_small,
           OF _ _ _ _ refl refl]
  by (simp add: world_defs query_defs signAndSend_def transfer_actions_def)

section \<open>Wrapping and unwrapping (C8, C10)\<close>

lemma wrapNear_submits:
  assumes "getAccount w lg accountId = Inr account"
    and "viewFunction w account lg (NEAR_TOKEN_ID cfg) ''storage_balance_of''
           (JObj [(''account_id'', JStr accountId)]) = Inr storage"
  shows "wrapNear cfg w lg accountId wrapAmount toWNear =
           signAndSend w account lg
             (Tx (NEAR_TOKEN_ID cfg)
                ((if truthy storage then []
                  else [functionCall ''storage_deposit'' (JObj [])
                          (FT_STORAGE_DEPOSIT_GAS cfg) (Some parseNearAmount_0_00125)])
                 @ [functionCall
                      (if toWNear then ''near_deposit'' else ''near_withdraw'')
                      (if toWNear then JObj [] else JObj [(''amount'', JNum wrapAmount)])
                      (FT_STORAGE_DEPOSIT_GAS cfg)
                      (Some (if toWNear then wrapAmount else TOKEN_TRANSFER_DEPOSIT cfg))]))"
  using assms by (simp add: wrapNear_def Let_def)

text \<open>
  C8. When wrapping (\<open>toWNear\<close> true) for an account without a storage balance at the
  wrapped-token contract, the submitted transaction holds exactly one \<open>storage_deposit\<close>
  action, funded with the fixed amount of 0.00125 NEAR, ahead of the \<open>near_deposit\<close>
  action; with a storage balance it holds the \<open>near_deposit\<close> action alone.
\<close>

theorem wrapNear_deposit_storage_first:
  assumes account: "getAccount w lg accountId = Inr account"
    and balance: "viewFunction w account lg (NEAR_TOKEN_ID cfg) ''storage_balance_of''
           (JObj [(''account_id'', JStr accountId)]) = Inr storage"
  shows "snd (wrapNear cfg w lg accountId wrapAmount True) =
           lg @ [SentTransaction account
                   (Tx (NEAR_TOKEN_ID cfg)
                      (if \<not> truthy storage then
                         [functionCall ''storage_deposit'' (JObj [])
                            (FT_STORAGE_DEPOSIT_GAS cfg) (Some 1250000000000000000000),
                          functionCall ''near_deposit'' (JObj [])
                            (FT_STORAGE_DEPOSIT_GAS cfg) (Some wrapAmount)]
                       else
                         [functionCall ''near_deposit'' (JObj [])
                            (FT_STORAGE_DEPOSIT_GAS cfg) (Some wrapAmount)]))]"
  by (simp add: wrapNear_submits [OF account balance] signAndSend_def parseNearAmount_0_00125_def)

text \<open>
  C10. When unwrapping (\<open>toWNear\<close> false) for an account without a storage balance, the
  \<open>storage_deposit\<close> action is placed ahead of the \<open>near_withdraw\<close> action as well:
  for either direction the action is present exactly when the storage-balance query
  returns a falsy value.
\<close>

theorem wrapNear_withdraw_storage_first:
  assumes account: "getAccount w lg accountId = Inr account"
    and balance: "viewFunction w account lg (NEAR_TOKEN_ID cfg) ''storage_balance_of''
           (JObj [(''account_id'', JStr accountId)]) = Inr storage"
  shows "snd (wrapNear cfg w lg accountId wrapAmount False) =
           lg @ [SentTransaction account
                   (Tx (NEAR_TOKEN_ID cfg)
                      (if \<not> truthy storage then
                         [functionCall ''storage_deposit'' (JObj [])
                            (FT_STORAGE_DEPOSIT_GAS cfg) (Some 1250000000000000000000),
                          functionCall ''near_withdraw'' (JObj [(''amount'', JNum wrapAmount)])
                            (FT_STORAGE_DEPOSIT_GAS cfg) (Some (TOKEN_TRANSFER_DEPOSIT cfg))]
                       else
                         [functionCall ''near_withdraw'' (JObj [(''amount'', JNum wrapAmount)])
                            (FT_STORAGE_DEPOSIT_GAS cfg) (Some (TOKEN_TRANSFER_DEPOSIT cfg))]))]
       \<and> (\<forall>toWNear. \<exists>actions.
             snd (wrapNear cfg w lg accountId wrapAmount toWNear) =
               lg @ [SentTransaction account (Tx (NEAR_TOKEN_ID cfg) actions)]
           \<and> map methodName actions =
               (if truthy storage then [] else [''storage_deposit''])
               @ [if toWNear then ''near_deposit'' else ''near_withdraw''])"
  by (simp add: wrapNear_submits [OF account balance] signAndSend_def
        parseNearAmount_0_00125_def functionCall_def)

theorem wrapNear_deposit_storage_first_witness:
  "snd (wrapNear example_config (example_world (Inr JNull) (Inr JNull) accept_all) []
          ''alice.near'' 5000 True) =
     [SentTransaction ''alice.near''
        (Tx ''wrap.near''
           [functionCall ''storage_deposit'' (JObj []) 30000000000000
              (Some 1250000000000000000000),
            functionCall ''near_deposit'' (JObj []) 30000000000000 (Some 5000)])]
   \<and> snd (wrapNear example_config
            (example_world (Inr JNull) (Inr (JObj [(''total'', JNum 125)])) accept_all) []
          ''alice.near'' 5000 True) =
     [SentTransaction ''alice.near''
        (Tx ''wrap.near''
           [functionCall ''near_deposit'' (JObj []) 30000000000000 (Some 5000)])]"
  using wrapNear_deposit_storage_first
          [where w = "example_world (Inr JNull) (Inr JNull) accept_all" and lg = "[]"
             and cfg = example_config and accountId = "''alice.near''"
             and account = "''alice.near''" and storage = JNull and wrapAmount = 5000]
        wrapNear_deposit_storage_first
          [where w = "example_world (Inr JNull) (Inr (JObj [(''total'', JNum 125)])) accept_all"
             and lg = "[]" and cfg = example_config and accountId = "''alice.near''"
             and account = "''alice.near''" and storage = "JObj [(''total'', JNum 125)]"
             and wrapAmount = 5000]
  by (simp add: world_defs)

theorem wrapNear_withdraw_storage_first_witness:
  "snd (wrapNear example_config (example_world (Inr JNull) (Inr JNull) accept_all) []
          ''alice.near'' 5000 False) =
     [SentTransaction ''alice.near''
        (Tx ''wrap.near''
           [functionCall ''storage_deposit'' (JObj []) 30000000000000
              (Some 1250000000000000000000),
            functionCall ''near_withdraw'' (JObj [(''amount'', JNum 5000)]) 30000000000000
              (Some 1)])]
   \<and> snd (wrapNear example_config
            (example_world (Inr JNull) (Inr (JObj [(''total'', JNum 125)])) accept_all) []
          ''alice.near'' 5000 False) =
     [SentTransaction ''alice.near''
        (Tx ''wrap.near''
           [functionCall ''near_withdraw'' (JObj [(''amount'', JNum 5000)]) 30000000000000
              (Some 1)])]"
  using wrapNear_withdraw_storage_first
          [where w = "example_world (Inr JNull) (Inr JNull) accept_all" and lg = "[]"
             and cfg = example_config and accountId = "''alice.near''"
             and account = "''alice.near''" and storage = JNull and wrapAmount = 5000]
        wrapNear_withdraw_storage_first
          [where w = "example_world (Inr JNull) (Inr (JObj [(''total'', JNum 125)])) accept_all"
             and lg = "[]" and cfg = example_config and accountId = "''alice.near''"
             and account = "''alice.near''" and storage = "JObj [(''total'', JNum 125)]"
             and wrapAmount = 5000]
  by (simp add: world_defs)

section \<open>Starting two-factor authentication (C7)\<close>

text \<open>
  C7. When the wallet reports a Ledger signer, \<open>initTwoFactor\<close> fails with the
  \<open>WalletError\<close> typed \<open>initTwoFactor.ledgerEnabled\<close>; the controller is left as it was
  (the pending request is not cleared and the helper service is not called). When it
  reports none, the pending request is first replaced by \<open>requestId = -1\<close>, then
  \<open>/2fa/init\<close> is posted to the helper service, and the outcome of that request is
  the outcome of the call.
\<close>

theorem initTwoFactor_ledger_first:
  "(\<forall>v. isLedgerEnabled w = Inr v \<and> truthy v \<longrightarrow>
        initTwoFactor w s accountId method =
          (Inl (WalletError ''Ledger Hardware Wallet is enabled'' ''initTwoFactor.ledgerEnabled''),
           s))
   \<and> (\<forall>v. isLedgerEnabled w = Inr v \<and> \<not> truthy v \<longrightarrow>
        initTwoFactor w s accountId method =
          (postSignedJson w ''/2fa/init''
             (JObj [(''accountId'', JStr accountId), (''method'', method)]),
           s\<lparr>request := JObj [(''requestId'', JNum (- 1))],
             trace := trace s @
               [SetRequest (JObj [(''requestId'', JNum (- 1))]),
                PostSignedJson ''/2fa/init''
                  (JObj [(''accountId'', JStr accountId), (''method'', method)])]\<rparr>))"
  by (simp add: initTwoFactor_def ledger_error_def Let_def)

theorem initTwoFactor_ledger_first_witness:
  "initTwoFactor (example_tf_world (Inr JNull) (Inr (JBool True)) (Inr JNull)) example_controller
     ''alice.near'' (JObj [(''kind'', JStr ''2fa-email'')]) =
     (Inl (WalletError ''Ledger Hardware Wallet is enabled'' ''initTwoFactor.ledgerEnabled''),
      example_controller)
   \<and> initTwoFactor (example_tf_world (Inr JNull) (Inr (JBool False)) (Inr JNull))
       example_controller ''alice.near'' (JObj [(''kind'', JStr ''2fa-email'')]) =
     (Inr (JObj [(''success'', JBool True)]),
      \<lparr>has2fa = True,
       request = JObj [(''requestId'', JNum (- 1))],
       trace =
         [SetRequest (JObj [(''requestId'', JNum (- 1))]),
          PostSignedJson ''/2fa/init''
            (JObj [(''accountId'', JStr ''alice.near''),
                   (''method'', JObj [(''kind'', JStr ''2fa-email'')])])]\<rparr>)"
  using initTwoFactor_ledger_first
          [of "example_tf_world (Inr JNull) (Inr (JBool True)) (Inr JNull)" example_controller
              "''alice.near''" "JObj [(''kind'', JStr ''2fa-email'')]"]
        initTwoFactor_ledger_first
          [of "example_tf_world (Inr JNull) (Inr (JBool False)) (Inr JNull)" example_controller
              "''alice.near''" "JObj [(''kind'', JStr ''2fa-email'')]"]
  by (simp add: example_tf_world_def example_controller_def)

section \<open>The 2FA method (C9)\<close>

text \<open>
  C9. \<open>get2faMethod\<close> tests the promise that \<open>has2faEnabled\<close> returns, not the value
  it settles to; a promise is truthy, so the inherited \<open>get2faMethod\<close> is invoked for
  every account, and the branch that returns \<open>null\<close> is never taken, whether or not 2FA
  is enabled.
\<close>

theorem get2faMethod_always_inherited:
  "truthy_promise (has2faEnabled cfg w)
   \<and> get2faMethod cfg w s =
       (super_get2faMethod w, s\<lparr>trace := trace s @ [SuperGet2faMethod]\<rparr>)"
  by (simp add: get2faMethod_def has2faEnabled_def)

theorem get2faMethod_always_inherited_witness:
  "await (has2faEnabled example_config
            (example_tf_world (Inr (JObj [(''code_hash'', JStr ''11111111'')]))
               (Inr (JBool False)) (Inr JNull))) = Inr False
   \<and> get2faMethod example_config
        (example_tf_world (Inr (JObj [(''code_hash'', JStr ''11111111'')]))
           (Inr (JBool False)) (Inr JNull))
        (example_controller\<lparr>has2fa := False\<rparr>) =
       (Inr (JObj [(''kind'', JStr ''2fa-email''), (''detail'', JStr ''alice@example.com'')]),
        \<lparr>has2fa = False,
         request = JObj [(''requestId'', JNum 7), (''accountId'', JStr ''alice.near'')],
         trace = [SuperGet2faMethod]\<rparr>)"
  using get2faMethod_always_inherited
          [of example_config
              "example_tf_world (Inr (JObj [(''code_hash'', JStr ''11111111'')]))
                 (Inr (JBool False)) (Inr JNull)"
              "example_controller\<lparr>has2fa := False\<rparr>"]
  by (simp add: example_tf_world_def example_controller_def example_config_def
        has2faEnabled_def)

section \<open>Disabling two-factor authentication (C2)\<close>

text \<open>
  \<open>deployMultisig\<close> lets a failure of the inherited operation reach the caller and
  leaves \<open>has2fa\<close> alone.
\<close>

lemma deployMultisig_failure_propagates:
  assumes "fetch_bytes w ''/multisig.wasm'' = Inr contractBytes"
    and "super_deployMultisig w contractBytes = Inl e"
  shows "fst (deployMultisig w s) = Inl e \<and> has2fa (snd (deployMultisig w s)) = has2fa s"
  using assms by (simp add: deployMultisig_def)

text \<open>When the inherited \<open>disable\<close> succeeds, the account is refreshed and \<open>has2fa\<close> cleared.\<close>

lemma disableMultisig_on_success:
  assumes "fetch_bytes w ''/main.wasm'' = Inr contractBytes"
    and "fetch_bytes w ''/state_cleanup.wasm'' = Inr stateCleanupContractBytes"
    and "disable w contractBytes stateCleanupContractBytes = Inr result"
    and "refreshAccount w = Inr u"
  shows "disableMultisig w s =
           (Inr result,
            s\<lparr>has2fa := False,
              trace := trace s @
                [Disable contractBytes stateCleanupContractBytes, RefreshAccount]\<rparr>)"
  using assms by (simp add: disableMultisig_def Let_def)

text \<open>
  C2. When the inherited \<open>disable\<close> fails with a message containing "too large to be
  viewed", the caller receives the fixed 15-minute message and \<open>has2fa\<close> is unchanged.
  The \<open>catch\<close> block has no other branch: a failure with any other message is dropped,
  the account is refreshed, \<open>has2fa\<close> becomes false and the call returns \<open>undefined\<close>,
  where the claim expects the failure to reach the caller and \<open>has2fa\<close> to stay.
\<close>

theorem disableMultisig_on_failure:
  assumes main: "fetch_bytes w ''/main.wasm'' = Inr contractBytes"
    and cleanup: "fetch_bytes w ''/state_cleanup.wasm'' = Inr stateCleanupContractBytes"
    and failure: "disable w contractBytes stateCleanupContractBytes = Inl e"
    and refreshed: "refreshAccount w = Inr u"
  shows "disableMultisig w s =
           (if str_includes (message e) ''too large to be viewed'' then
              (Inl (Error ''You must wait 15 minutes between each attempt to disable 2fa. Please try again in 15 minutes. ''),
               s\<lparr>trace := trace s @ [Disable contractBytes stateCleanupContractBytes]\<rparr>)
            else
              (Inr JUndefined,
               s\<lparr>has2fa := False,
                 trace := trace s @
                   [Disable contractBytes stateCleanupContractBytes, RefreshAccount]\<rparr>))"
  using assms by (simp add: disableMultisig_def wait_15_minutes_def Let_def)

theorem disableMultisig_on_failure_witness:
  "disableMultisig
     (example_tf_world (Inr JNull) (Inr (JBool False))
        (Inl (Error ''State of contract alice.near is too large to be viewed'')))
     example_controller =
     (Inl (Error ''You must wait 15 minutes between each attempt to disable 2fa. Please try again in 15 minutes. ''),
      \<lparr>has2fa = True,
       request = JObj [(''requestId'', JNum 7), (''accountId'', JStr ''alice.near'')],
       trace = [Disable [0, 97, 115, 109] [1, 2]]\<rparr>)
   \<and> disableMultisig
       (example_tf_world (Inr JNull) (Inr (JBool False)) (Inl (Error ''Exceeded the prepaid gas'')))
       example_controller =
     (Inr JUndefined,
      \<lparr>has2fa = False,
       request = JObj [(''requestId'', JNum 7), (''accountId'', JStr ''alice.near'')],
       trace = [Disable [0, 97, 115, 109] [1, 2], RefreshAccount]\<rparr>)"
  using disableMultisig_on_failure
          [where w = "example_tf_world (Inr JNull) (Inr (JBool False))
                        (Inl (Error ''State of contract alice.near is too large to be viewed''))"
             and s = example_controller
             and e = "Error ''State of contract alice.near is too large to be viewed''"
             and contractBytes = "[0, 97, 115, 109]" and stateCleanupContractBytes = "[1, 2]"
             and u = JNull]
        disableMultisig_on_failure
          [where w = "example_tf_world (Inr JNull) (Inr (JBool False))
                        (Inl (Error ''Exceeded the prepaid gas''))"
             and s = example_controller and e = "Error ''Exceeded the prepaid gas''"
             and contractBytes = "[0, 97, 115, 109]" and stateCleanupContractBytes = "[1, 2]"
             and u = JNull]
  by (simp add: example_tf_world_def example_controller_def)

end
